theory Spec2Isabelle
  imports Main
begin

section \<open>A document database on top of a relational table\<close>

text \<open>
  The development embeds \<^verbatim>\<open>index.js\<close> of \<^verbatim>\<open>@apostrophecms/sql\<close>: a MongoDB-like
  collection API that stores every document as one row of a SQL table, the row holding the
  document's \<^verbatim>\<open>_id\<close>, its extended-JSON text in \<^verbatim>\<open>_ext_json\<close>, and one column per
  indexed property.

  What the module calls but does not define is kept outside the embedding and passed in as the
  record \<open>env\<close>: the document matcher \<^verbatim>\<open>sift\<close>, the codec \<^verbatim>\<open>EJSON\<close>, the errors the SQL
  backend reports, and the backend's ORDER BY. The id generator \<^verbatim>\<open>cuid()\<close> and the clock
  \<^verbatim>\<open>new Date()\<close> are arguments of the operations that call them. The table itself is a value:
  its rows in storage order, its column names and its indexes. The collection's table is taken
  as created (the \<^verbatim>\<open>ready()\<close> handshake has settled), and every operation runs to its end before
  the next starts.
\<close>

subsection \<open>JavaScript values\<close>

text \<open>
  Numbers are integers (no fractions, no NaN), an object is the list of its own properties in
  insertion order (integer-like keys, which JavaScript enumerates first, are not treated
  apart), and a date is its timestamp. A value lists own properties only; what a document
  inherits from \<^verbatim>\<open>Object.prototype\<close> is \<open>object_prototype\<close> below, read where the source
  reads \<^verbatim>\<open>doc[prop]\<close> without asking \<^verbatim>\<open>Object.hasOwn\<close> first. An assignment to the inherited
  setter \<^verbatim>\<open>__proto__\<close> is not modelled.
\<close>

datatype jsval =
    JUndefined
  | JNull
  | JBool bool
  | JNum int
  | JStr string
  | JDate int
  | JArr "jsval list"
  | JObj "(string \<times> jsval) list"

type_synonym obj = "(string \<times> jsval) list"

text \<open>
  Own properties. An array and a string own \<^verbatim>\<open>length\<close> and their canonical index keys;
  \<open>lookup\<close> reads a property of an object and gives \<open>JUndefined\<close> for a missing one.
\<close>

definition is_digit :: "char \<Rightarrow> bool" where
  "is_digit c = (48 \<le> (of_char c :: nat) \<and> (of_char c :: nat) \<le> 57)"

definition array_index :: "string \<Rightarrow> nat option" where
  "array_index k =
     (if k \<noteq> [] \<and> list_all is_digit k \<and> (length k = 1 \<or> hd k \<noteq> CHR ''0'')
      then Some (foldl (\<lambda>a c. 10 * a + (of_char c - 48)) 0 k)
      else None)"

fun lookup :: "('k \<times> jsval) list \<Rightarrow> 'k \<Rightarrow> jsval" where
  "lookup [] k = JUndefined"
| "lookup ((k', v) # kvs) k = (if k' = k then v else lookup kvs k)"

fun hasOwn :: "jsval \<Rightarrow> string \<Rightarrow> bool" where
  "hasOwn (JObj kvs) k = (k \<in> set (map fst kvs))"
| "hasOwn (JArr xs) k =
     (k = ''length'' \<or> (case array_index k of Some i \<Rightarrow> i < length xs | None \<Rightarrow> False))"
| "hasOwn (JStr s) k =
     (k = ''length'' \<or> (case array_index k of Some i \<Rightarrow> i < length s | None \<Rightarrow> False))"
| "hasOwn _ k = False"

fun get_prop :: "jsval \<Rightarrow> string \<Rightarrow> jsval" where
  "get_prop (JObj kvs) k = lookup kvs k"
| "get_prop (JArr xs) k =
     (if k = ''length'' then JNum (int (length xs))
      else (case array_index k of
              Some i \<Rightarrow> (if i < length xs then xs ! i else JUndefined)
            | None \<Rightarrow> JUndefined))"
| "get_prop (JStr s) k =
     (if k = ''length'' then JNum (int (length s))
      else (case array_index k of
              Some i \<Rightarrow> (if i < length s then JStr [s ! i] else JUndefined)
            | None \<Rightarrow> JUndefined))"
| "get_prop _ k = JUndefined"

fun truthy :: "jsval \<Rightarrow> bool" where
  "truthy JUndefined = False"
| "truthy JNull = False"
| "truthy (JBool b) = b"
| "truthy (JNum n) = (n \<noteq> 0)"
| "truthy (JStr s) = (s \<noteq> [])"
| "truthy _ = True"

fun typeof_object :: "jsval \<Rightarrow> bool" where
  "typeof_object JNull = True"
| "typeof_object (JDate t) = True"
| "typeof_object (JArr xs) = True"
| "typeof_object (JObj kvs) = True"
| "typeof_object _ = False"

definition js_or :: "jsval \<Rightarrow> jsval \<Rightarrow> jsval" where
  "js_or a b = (if truthy a then a else b)"

fun js_values :: "jsval \<Rightarrow> jsval list" where
  "js_values (JObj kvs) = map snd kvs"
| "js_values (JArr xs) = xs"
| "js_values (JStr s) = map (\<lambda>c. JStr [c]) s"
| "js_values _ = []"

fun first_found :: "jsval list \<Rightarrow> jsval" where
  "first_found [] = JUndefined"
| "first_found (found # rest) = (if found \<noteq> JUndefined then found else first_found rest)"

subsection \<open>deepGet\<close>

text \<open>
  \<^verbatim>\<open>deepGet(criteria, key)\<close>: the own property \<^verbatim>\<open>key\<close>, or else the first defined result among
  the truthy members of \<^verbatim>\<open>criteria.$and\<close>, searched recursively. The recursion descends into
  proper parts of the value, which is its termination argument.
\<close>

lemma lookup_smaller: "lookup kvs k = v \<Longrightarrow> v \<noteq> JUndefined \<Longrightarrow> size v < size (JObj kvs)"
  by (induction kvs) (auto split: if_splits)

lemma js_values_size: "x \<in> set (js_values v) \<Longrightarrow> size x \<le> size v"
proof (cases v)
  case (JArr xs)
  assume "x \<in> set (js_values v)"
  with JArr have "x \<in> set xs" by simp
  then have "size x \<le> size_list size xs" by (induction xs) auto
  with JArr show ?thesis by simp
next
  case (JObj kvs)
  assume "x \<in> set (js_values v)"
  with JObj obtain k where "(k, x) \<in> set kvs" by auto
  then have "size x \<le> size_list (size_prod (\<lambda>_. 0) size) kvs" by (induction kvs) auto
  with JObj show ?thesis by simp
qed auto

lemma and_values_size:
  assumes "\<not> hasOwn c key" "x \<in> set (filter truthy (js_values (js_or (get_prop c ''$and'') (JArr []))))"
  shows "size x < size c"
proof (cases c)
  case (JObj kvs)
  let ?v = "lookup kvs ''$and''"
  show ?thesis
  proof (cases "truthy ?v")
    case True
    then have "?v \<noteq> JUndefined" by auto
    then have "size ?v < size (JObj kvs)" using lookup_smaller by blast
    moreover have "x \<in> set (js_values ?v)" using assms(2) JObj True by (simp add: js_or_def)
    ultimately show ?thesis using js_values_size JObj by fastforce
  next
    case False
    then show ?thesis using assms(2) JObj by (simp add: js_or_def)
  qed
qed (use assms in \<open>auto simp: js_or_def array_index_def is_digit_def\<close>)

function deepGet :: "jsval \<Rightarrow> string \<Rightarrow> jsval" where
  "deepGet criteria key =
     (if hasOwn criteria key then get_prop criteria key
      else first_found
             (map (\<lambda>value. deepGet value key)
                  (filter truthy (js_values (js_or (get_prop criteria ''$and'') (JArr []))))))"
  by pat_completeness auto
termination
  by (relation "measure (\<lambda>(c, k). size c)") (auto dest: and_values_size)


declare deepGet.simps [simp del]

subsection \<open>Helpers of the JavaScript runtime\<close>

text \<open>
  \<open>obj_set\<close> is the assignment \<^verbatim>\<open>o[k] = v\<close> (an existing key keeps its place, a new one goes
  last) and \<open>obj_delete\<close> is \<^verbatim>\<open>delete o[k]\<close>. \<open>strict_eq\<close> is \<^verbatim>\<open>===\<close> between a value
  decoded from a row and a value the caller passed: primitives compare by value, and two
  objects, arrays or dates are never the same reference. \<open>inherits doc prop\<close> says that
  \<^verbatim>\<open>doc[prop]\<close> is not an own property but a member of \<^verbatim>\<open>Object.prototype\<close> (a built-in
  function, or the prototype itself for \<^verbatim>\<open>__proto__\<close>). \<open>js_plus\<close> is \<^verbatim>\<open>+\<close>: the sum of
  numbers, booleans and \<^verbatim>\<open>null\<close>, rounded to the nearest double (\<open>round_double\<close>, ties to
  the even mantissa), or the concatenation when an operand is a string. It is \<open>None\<close>
  outside the embedded fragment: a result that is NaN or infinite, the text of a number
  beyond \<open>2^53\<close>, and operands that are objects, arrays or dates.
  \<open>slice_from xs n\<close> is \<^verbatim>\<open>xs.slice(n)\<close> and \<open>slice_to xs n\<close> is \<^verbatim>\<open>xs.slice(0, n)\<close>, a negative
  argument counting from the end.
\<close>

definition mangleName :: "string \<Rightarrow> string" where
  "mangleName name = concat (map (\<lambda>c. if c = CHR ''.'' then ''__'' else [c]) name)"

fun obj_set :: "'k \<Rightarrow> 'v \<Rightarrow> ('k \<times> 'v) list \<Rightarrow> ('k \<times> 'v) list" where
  "obj_set k v [] = [(k, v)]"
| "obj_set k v ((k', v') # kvs) = (if k' = k then (k, v) # kvs else (k', v') # obj_set k v kvs)"

definition obj_delete :: "'k \<Rightarrow> ('k \<times> 'v) list \<Rightarrow> ('k \<times> 'v) list" where
  "obj_delete k kvs = filter (\<lambda>kv. fst kv \<noteq> k) kvs"

fun is_primitive :: "jsval \<Rightarrow> bool" where
  "is_primitive (JDate t) = False"
| "is_primitive (JArr xs) = False"
| "is_primitive (JObj kvs) = False"
| "is_primitive _ = True"

definition strict_eq :: "jsval \<Rightarrow> jsval \<Rightarrow> bool" where
  "strict_eq a b = (is_primitive a \<and> a = b)"

definition object_prototype :: "string list" where
  "object_prototype =
     [''constructor'', ''__defineGetter__'', ''__defineSetter__'', ''hasOwnProperty'',
      ''__lookupGetter__'', ''__lookupSetter__'', ''isPrototypeOf'', ''propertyIsEnumerable'',
      ''toString'', ''valueOf'', ''__proto__'', ''toLocaleString'']"

definition inherits :: "obj \<Rightarrow> string \<Rightarrow> bool" where
  "inherits doc prop = (prop \<in> set object_prototype \<and> prop \<notin> set (map fst doc))"

definition safe_integer :: "int \<Rightarrow> bool" where
  "safe_integer n = (- 9007199254740992 \<le> n \<and> n \<le> 9007199254740992)"

fun show_nat :: "nat \<Rightarrow> string" where
  "show_nat n =
     (if n < 10 then [char_of (48 + n)] else show_nat (n div 10) @ [char_of (48 + n mod 10)])"

declare show_nat.simps [simp del]

definition show_int :: "int \<Rightarrow> string" where
  "show_int n = (if n < 0 then ''-'' @ show_nat (nat (- n)) else show_nat (nat n))"

function bit_length :: "int \<Rightarrow> nat" where
  "bit_length n = (if n \<le> 0 then 0 else Suc (bit_length (n div 2)))"
  by pat_completeness auto
termination
  by (relation "measure nat") auto

declare bit_length.simps [simp del]

definition round_magnitude :: "int \<Rightarrow> int" where
  "round_magnitude n =
     (let e = bit_length n - 53; q = n div 2 ^ e; r = n mod 2 ^ e
      in if 2 * r > 2 ^ e then (q + 1) * 2 ^ e
         else if 2 * r = 2 ^ e \<and> odd q then (q + 1) * 2 ^ e
         else q * 2 ^ e)"

definition round_double :: "int \<Rightarrow> int option" where
  "round_double n =
     (if safe_integer n then Some n
      else (let m = round_magnitude \<bar>n\<bar>
            in if bit_length m \<le> 1024 then Some (if n < 0 then - m else m) else None))"

fun to_number :: "jsval \<Rightarrow> int option" where
  "to_number (JNum n) = round_double n"
| "to_number (JBool b) = Some (if b then 1 else 0)"
| "to_number JNull = Some 0"
| "to_number _ = None"

fun to_string :: "jsval \<Rightarrow> string option" where
  "to_string (JStr s) = Some s"
| "to_string (JNum n) = (if safe_integer n then Some (show_int n) else None)"
| "to_string (JBool b) = Some (if b then ''true'' else ''false'')"
| "to_string JNull = Some ''null''"
| "to_string JUndefined = Some ''undefined''"
| "to_string _ = None"

fun is_string :: "jsval \<Rightarrow> bool" where
  "is_string (JStr s) = True"
| "is_string _ = False"

definition js_plus :: "jsval \<Rightarrow> jsval \<Rightarrow> jsval option" where
  "js_plus a b =
     (if is_primitive a \<and> is_primitive b \<and> (is_string a \<or> is_string b)
      then (case (to_string a, to_string b) of
              (Some x, Some y) \<Rightarrow> Some (JStr (x @ y))
            | _ \<Rightarrow> None)
      else (case (to_number a, to_number b) of
              (Some x, Some y) \<Rightarrow> map_option JNum (round_double (x + y))
            | _ \<Rightarrow> None))"

fun slice_from :: "'a list \<Rightarrow> int \<Rightarrow> 'a list" where
  "slice_from xs start =
     (if start < 0 then drop (nat (max (int (length xs) + start) 0)) xs else drop (nat start) xs)"

fun slice_to :: "'a list \<Rightarrow> int \<Rightarrow> 'a list" where
  "slice_to xs stop =
     (if stop < 0 then take (nat (max (int (length xs) + stop) 0)) xs else take (nat stop) xs)"

fun str_includes :: "string \<Rightarrow> string \<Rightarrow> bool" where
  "str_includes [] pat = (pat = [])"
| "str_includes (c # s) pat = (if take (length pat) (c # s) = pat then True else str_includes s pat)"

subsection \<open>The collaborators: matcher, codec and SQL backend\<close>

text \<open>
  An error is its message and its \<^verbatim>\<open>code\<close> property. \<open>sift env criteria doc\<close> is
  \<^verbatim>\<open>sift(criteria)(doc)\<close>; \<open>EJSON_parse env\<close> is applied to the cell read from \<^verbatim>\<open>_ext_json\<close>.
\<close>

datatype js_error = Error (message: string) (code: jsval)

datatype backend_failure = UniqueFailed | NoSuchColumn | DuplicateColumn | IndexExists

record env =
  sift :: "obj \<Rightarrow> obj \<Rightarrow> bool"
  EJSON_stringify :: "obj \<Rightarrow> string"
  EJSON_parse :: "jsval \<Rightarrow> obj"
  backend_error :: "backend_failure \<Rightarrow> js_error"
  order_by :: "(string \<times> bool) list \<Rightarrow> obj list \<Rightarrow> obj list"

text \<open>
  The table behind a collection, as knex and the SQL engine treat it:
  \<^item> a cell that was never written, or written as \<^verbatim>\<open>undefined\<close> or \<^verbatim>\<open>null\<close>, is NULL; NULL is
    equal to nothing in a WHERE clause and exempt from unique indexes;
  \<^item> other cells compare by equality of values (the engine's type affinity is not modelled);
  \<^item> naming a column the table does not have is a backend error;
  \<^item> a column added by ALTER TABLE is NULL in the rows that exist already;
  \<^item> an update leaves the columns alone whose new value is \<^verbatim>\<open>undefined\<close>;
  \<^item> knex refuses a WHERE clause that binds \<^verbatim>\<open>undefined\<close>, and turns the two-argument
    \<^verbatim>\<open>where(column, null)\<close> into IS NULL;
  \<^item> a statement that fails changes nothing, but the statements of one ALTER TABLE run one
    after the other;
  \<^item> knex names an index after its columns, joined by \<^verbatim>\<open>_\<close>, and its kind, in lower case
    (\<open>index_name\<close>, the table's name left out), and an index whose name is taken already
    exists.
\<close>

record table =
  rows :: "obj list"
  columns :: "string list"
  index_defs :: "(string list \<times> bool) list"

definition createTable :: table where
  "createTable = \<lparr>rows = [], columns = [''_id'', ''_ext_json''], index_defs = [([''_id''], True)]\<rparr>"

definition sql_null :: "jsval \<Rightarrow> bool" where
  "sql_null v = (v = JUndefined \<or> v = JNull)"

definition undefined_binding :: js_error where
  "undefined_binding = Error ''Undefined binding(s) detected when compiling query'' JUndefined"

definition key_of :: "string list \<Rightarrow> obj \<Rightarrow> jsval list" where
  "key_of cols r = map (lookup r) cols"

definition violates :: "(string list \<times> bool) list \<Rightarrow> obj list \<Rightarrow> bool" where
  "violates ixs rs =
     list_ex (\<lambda>ix. snd ix \<and>
        \<not> distinct (map (key_of (fst ix))
                        (filter (\<lambda>r. list_all (\<lambda>col. \<not> sql_null (lookup r col)) (fst ix)) rs)))
       ixs"

definition unknown_column :: "table \<Rightarrow> string list \<Rightarrow> bool" where
  "unknown_column t names = list_ex (\<lambda>n. n \<notin> set (columns t)) names"

definition defined_cells :: "obj \<Rightarrow> obj" where
  "defined_cells row = filter (\<lambda>kv. snd kv \<noteq> JUndefined) row"

definition sql_insert :: "env \<Rightarrow> table \<Rightarrow> obj \<Rightarrow> js_error + table" where
  "sql_insert env t row =
     (if unknown_column t (map fst row) then Inl (backend_error env NoSuchColumn)
      else if violates (index_defs t) (rows t @ [row]) then Inl (backend_error env UniqueFailed)
      else Inr (t\<lparr>rows := rows t @ [row]\<rparr>))"

definition id_matches :: "jsval list \<Rightarrow> obj \<Rightarrow> bool" where
  "id_matches ids r = (lookup r ''_id'' \<in> set ids \<and> \<not> sql_null (lookup r ''_id''))"

definition sql_update :: "env \<Rightarrow> table \<Rightarrow> obj \<Rightarrow> jsval \<Rightarrow> js_error + table" where
  "sql_update env t row ident =
     (if ident = JUndefined then Inl undefined_binding
      else if unknown_column t (map fst (defined_cells row)) then Inl (backend_error env NoSuchColumn)
      else (let rows' = map (\<lambda>r. if id_matches [ident] r
                                   then fold (\<lambda>kv. obj_set (fst kv) (snd kv)) (defined_cells row) r
                                   else r) (rows t)
            in if violates (index_defs t) rows' then Inl (backend_error env UniqueFailed)
               else Inr (t\<lparr>rows := rows'\<rparr>)))"

definition sql_delete :: "table \<Rightarrow> jsval list \<Rightarrow> js_error + (int \<times> table)" where
  "sql_delete t ids =
     (if JUndefined \<in> set ids then Inl undefined_binding
      else Inr (int (length (filter (id_matches ids) (rows t))),
                t\<lparr>rows := filter (\<lambda>r. \<not> id_matches ids r) (rows t)\<rparr>))"

definition sql_delete_where_id :: "table \<Rightarrow> jsval \<Rightarrow> js_error + (int \<times> table)" where
  "sql_delete_where_id t v =
     (if v = JNull
      then Inr (int (length (filter (\<lambda>r. sql_null (lookup r ''_id'')) (rows t))),
                t\<lparr>rows := filter (\<lambda>r. \<not> sql_null (lookup r ''_id'')) (rows t)\<rparr>)
      else sql_delete t [v])"

definition sql_select ::
  "env \<Rightarrow> table \<Rightarrow> (string \<times> bool) list option \<Rightarrow> (string \<times> jsval) list \<Rightarrow> js_error + obj list" where
  "sql_select env t orderBy wheres =
     (if unknown_column t (map fst wheres) then Inl (backend_error env NoSuchColumn)
      else (let selected = filter (\<lambda>r. list_all (\<lambda>w. lookup r (fst w) = snd w) wheres) (rows t)
            in case orderBy of
                 None \<Rightarrow> Inr selected
               | Some ob \<Rightarrow>
                   (if unknown_column t (map fst ob) then Inl (backend_error env NoSuchColumn)
                    else Inr (order_by env ob selected))))"

definition to_lower :: "char \<Rightarrow> char" where
  "to_lower c =
     (if 65 \<le> (of_char c :: nat) \<and> (of_char c :: nat) \<le> 90 then char_of ((of_char c :: nat) + 32)
      else c)"

fun join_names :: "string list \<Rightarrow> string" where
  "join_names [] = []"
| "join_names [n] = n"
| "join_names (n # ns) = n @ ''_'' @ join_names ns"

definition index_name :: "string list \<times> bool \<Rightarrow> string" where
  "index_name ix =
     map to_lower (join_names (fst ix) @ (if snd ix then ''_unique'' else ''_index''))"

fun add_columns :: "env \<Rightarrow> table \<Rightarrow> string list \<Rightarrow> js_error option \<times> table" where
  "add_columns env t [] = (None, t)"
| "add_columns env t (n # ns) =
     (if n \<in> set (columns t) then (Some (backend_error env DuplicateColumn), t)
      else add_columns env (t\<lparr>columns := columns t @ [n]\<rparr>) ns)"

definition sql_alterTable ::
  "env \<Rightarrow> table \<Rightarrow> string list \<Rightarrow> string list \<Rightarrow> bool \<Rightarrow> js_error option \<times> table" where
  "sql_alterTable env t newcols ixcols uniq =
     (case add_columns env t newcols of
        (Some e, t1) \<Rightarrow> (Some e, t1)
      | (None, t1) \<Rightarrow>
          (if index_name (ixcols, uniq) \<in> set (map index_name (index_defs t1))
           then (Some (backend_error env IndexExists), t1)
           else if violates [(ixcols, uniq)] (rows t1) then (Some (backend_error env UniqueFailed), t1)
           else (None, t1\<lparr>index_defs := index_defs t1 @ [(ixcols, uniq)]\<rparr>)))"


subsection \<open>Collections and cursors\<close>

text \<open>
  The module is created from an options object of which it reads \<^verbatim>\<open>knex\<close> only
  (\<^verbatim>\<open>module.exports = ({ knex }) => ...\<close>); here \<open>knex opts\<close> is the collection's table as the
  connection finds it, \<open>None\<close> when it has to be created. A collection starts with the implicit
  index on \<^verbatim>\<open>_id\<close>. \<open>reply\<close> is what a mutating call resolves to: \<^verbatim>\<open>{result: {nModified: n}}\<close>,
  \<^verbatim>\<open>{result: {nDeleted: n}}\<close> or \<^verbatim>\<open>undefined\<close>. A mutating call returns its reply or the error it
  throws, together with the collection afterwards.
\<close>

datatype index = Index (fields: obj) (options: obj)

record collection_state =
  indexes :: "index list"
  tbl :: table

record metadata_options =
  folder :: string
  locked :: bool

record module_options =
  knex :: "table option"
  metadata :: "metadata_options option"

definition collection :: "module_options \<Rightarrow> collection_state" where
  "collection opts =
     \<lparr>indexes = [Index [(''_id'', JNum 1)] []],
      tbl = (case knex opts of Some t \<Rightarrow> t | None \<Rightarrow> createTable)\<rparr>"

datatype reply = Result_nModified int | Result_nDeleted int | Undefined

record cursor =
  sortParams :: "(string \<times> int) list option"
  skipParam :: "int option"
  limitParam :: "int option"

definition query :: cursor where
  "query = \<lparr>sortParams = None, skipParam = None, limitParam = None\<rparr>"

definition limit :: "int \<Rightarrow> cursor \<Rightarrow> cursor" where
  "limit n q = q\<lparr>limitParam := Some n\<rparr>"

definition skip :: "int \<Rightarrow> cursor \<Rightarrow> cursor" where
  "skip n q = q\<lparr>skipParam := Some n\<rparr>"

subsection \<open>Rows and queries\<close>

text \<open>
  \<open>pushdown\<close> is the inner loop of \<^verbatim>\<open>toArray\<close> over the fields of one index: an equality on
  the field for as long as the criteria hold a defined value whose \<^verbatim>\<open>typeof\<close> is not
  \<^verbatim>\<open>'object'\<close>. The WHERE clause names the field as it is written in the index, while
  \<open>prepareForUpdate\<close> and \<open>createIndex\<close> name the column \<open>mangleName field\<close>.
\<close>

definition compatibleError :: "js_error \<Rightarrow> js_error" where
  "compatibleError e =
     (if code e = JStr ''SQLITE_CONSTRAINT'' then Error ''Not Unique'' (JNum 11000) else e)"

definition prepareForUpdate :: "env \<Rightarrow> index list \<Rightarrow> obj \<Rightarrow> obj" where
  "prepareForUpdate env ixs doc =
     fold (\<lambda>index row.
             fold (\<lambda>field row. obj_set (mangleName field) (deepGet (JObj doc) field) row)
                  (map fst (index.fields index)) row)
          ixs
          [(''_id'', lookup doc ''_id''), (''_ext_json'', JStr (EJSON_stringify env doc))]"

definition prepareForInsert :: "env \<Rightarrow> string \<Rightarrow> index list \<Rightarrow> obj \<Rightarrow> obj" where
  "prepareForInsert env cuid ixs doc =
     obj_set ''_id'' (js_or (lookup doc ''_id'') (JStr cuid)) (prepareForUpdate env ixs doc)"

fun pushdown :: "jsval \<Rightarrow> string list \<Rightarrow> (string \<times> jsval) list" where
  "pushdown criteria [] = []"
| "pushdown criteria (columnName # rest) =
     (let value = deepGet criteria columnName
      in if value \<noteq> JUndefined \<and> \<not> typeof_object value
         then (columnName, value) # pushdown criteria rest
         else [])"

definition wheres_of :: "index list \<Rightarrow> obj \<Rightarrow> (string \<times> jsval) list" where
  "wheres_of ixs criteria =
     concat (map (\<lambda>index. pushdown (JObj criteria) (map fst (index.fields index))) ixs)"

definition decode_row :: "env \<Rightarrow> obj \<Rightarrow> obj" where
  "decode_row env row = EJSON_parse env (lookup row ''_ext_json'')"

definition toArray :: "env \<Rightarrow> collection_state \<Rightarrow> obj \<Rightarrow> cursor \<Rightarrow> js_error + obj list" where
  "toArray env c criteria q =
     (case sql_select env (tbl c)
             (map_option (map (\<lambda>p. (fst p, snd p > 0))) (sortParams q))
             (wheres_of (indexes c) criteria) of
        Inl e \<Rightarrow> Inl e
      | Inr results \<Rightarrow>
          (let filtered = map (decode_row env)
                            (filter (\<lambda>row. sift env criteria (decode_row env row)) results);
               skipped = (case skipParam q of
                            None \<Rightarrow> filtered
                          | Some n \<Rightarrow> if n = 0 then filtered else slice_from filtered n);
               limited = (case limitParam q of
                            None \<Rightarrow> skipped
                          | Some n \<Rightarrow> if n = 0 then skipped else slice_to skipped n)
           in Inr limited))"

definition findOne :: "env \<Rightarrow> collection_state \<Rightarrow> obj \<Rightarrow> js_error + obj option" where
  "findOne env c criteria =
     (case toArray env c criteria (limit 1 query) of
        Inl e \<Rightarrow> Inl e
      | Inr ds \<Rightarrow> Inr (case ds of [] \<Rightarrow> None | d # _ \<Rightarrow> Some d))"

definition deleteOne :: "env \<Rightarrow> collection_state \<Rightarrow> obj \<Rightarrow> (js_error + reply) \<times> collection_state" where
  "deleteOne env c criteria =
     (case toArray env c criteria (limit 1 query) of
        Inl e \<Rightarrow> (Inl e, c)
      | Inr [] \<Rightarrow> (Inr (Result_nDeleted 0), c)
      | Inr (matching # _) \<Rightarrow>
          (case sql_delete_where_id (tbl c) (lookup matching ''_id'') of
             Inl e \<Rightarrow> (Inl e, c)
           | Inr (n, t) \<Rightarrow> (Inr (Result_nDeleted n), c\<lparr>tbl := t\<rparr>)))"

definition deleteMany :: "env \<Rightarrow> collection_state \<Rightarrow> obj \<Rightarrow> (js_error + reply) \<times> collection_state" where
  "deleteMany env c criteria =
     (case toArray env c criteria (limit 1 query) of
        Inl e \<Rightarrow> (Inl e, c)
      | Inr matching \<Rightarrow>
          (let ids = map (\<lambda>match. lookup match ''_id'') matching
           in if ids = [] then (Inr (Result_nDeleted 0), c)
              else (case sql_delete (tbl c) ids of
                      Inl e \<Rightarrow> (Inl e, c)
                    | Inr (n, t) \<Rightarrow> (Inr (Result_nDeleted n), c\<lparr>tbl := t\<rparr>))))"

definition removeOne :: "env \<Rightarrow> collection_state \<Rightarrow> obj \<Rightarrow> (js_error + reply) \<times> collection_state" where
  "removeOne env c criteria = deleteOne env c criteria"

definition removeMany :: "env \<Rightarrow> collection_state \<Rightarrow> obj \<Rightarrow> (js_error + reply) \<times> collection_state" where
  "removeMany env c criteria = deleteMany env c criteria"

definition insertOne ::
  "env \<Rightarrow> string \<Rightarrow> collection_state \<Rightarrow> obj \<Rightarrow> (js_error + reply) \<times> collection_state" where
  "insertOne env cuid c doc =
     (case sql_insert env (tbl c) (prepareForInsert env cuid (indexes c) doc) of
        Inl e \<Rightarrow> (Inl (compatibleError e), c)
      | Inr t \<Rightarrow> (Inr (Result_nModified 1), c\<lparr>tbl := t\<rparr>))"

fun insert_each ::
  "env \<Rightarrow> (nat \<Rightarrow> string) \<Rightarrow> nat \<Rightarrow> collection_state \<Rightarrow> obj list \<Rightarrow> js_error option \<times> collection_state" where
  "insert_each env cuids i c [] = (None, c)"
| "insert_each env cuids i c (doc # docs) =
     (case sql_insert env (tbl c) (prepareForInsert env (cuids i) (indexes c) doc) of
        Inl e \<Rightarrow> (Some e, c)
      | Inr t \<Rightarrow> insert_each env cuids (Suc i) (c\<lparr>tbl := t\<rparr>) docs)"

definition insertMany ::
  "env \<Rightarrow> (nat \<Rightarrow> string) \<Rightarrow> collection_state \<Rightarrow> obj list \<Rightarrow> (js_error + reply) \<times> collection_state" where
  "insertMany env cuids c docs =
     (case insert_each env cuids 0 c docs of
        (Some e, c') \<Rightarrow> (Inl (compatibleError e), c')
      | (None, c') \<Rightarrow> (Inr (Result_nModified (int (length docs))), c'))"

definition replaceOne :: "env \<Rightarrow> collection_state \<Rightarrow> obj \<Rightarrow> (js_error + reply) \<times> collection_state" where
  "replaceOne env c doc =
     (case sql_update env (tbl c) (prepareForUpdate env (indexes c) doc) (lookup doc ''_id'') of
        Inl e \<Rightarrow> (Inl e, c)
      | Inr t \<Rightarrow> (Inr (Result_nModified 1), c\<lparr>tbl := t\<rparr>))"


subsection \<open>Update operators\<close>

text \<open>
  An update is a list of operators, each with an object of properties. \<open>applyOperators\<close> is
  the loop of \<^verbatim>\<open>updateBody\<close> over \<^verbatim>\<open>Object.entries(operations)\<close>, on the document in memory;
  \<open>set_values xs\<close> is \<^verbatim>\<open>[...new Set(xs)]\<close>. In \<^verbatim>\<open>$addToSet\<close> the source calls
  \<^verbatim>\<open>new Set(doc[prop] || [], added)\<close>, and the constructor reads its first argument only.
\<close>

definition type_error :: "string \<Rightarrow> js_error" where
  "type_error msg = Error (''TypeError: '' @ msg) JUndefined"

definition rewrite_currentDate :: "int \<Rightarrow> (string \<times> obj) list \<Rightarrow> (string \<times> obj) list" where
  "rewrite_currentDate now operations =
     (case map_of operations ''$currentDate'' of
        None \<Rightarrow> operations
      | Some currentDate \<Rightarrow>
          (let set0 = (case map_of operations ''$set'' of Some s \<Rightarrow> s | None \<Rightarrow> []);
               set1 = fold (\<lambda>key s. obj_set key (JDate now) s) (map fst currentDate) set0
           in obj_delete ''$currentDate'' (obj_set ''$set'' set1 operations)))"

fun apply_inc :: "obj \<Rightarrow> obj \<Rightarrow> js_error + obj" where
  "apply_inc doc [] = Inr doc"
| "apply_inc doc ((prop, increment) # rest) =
     (let doc0 = (if hasOwn (JObj doc) prop then doc else obj_set prop (JNum 0) doc)
      in case js_plus (lookup doc0 prop) increment of
           Some v \<Rightarrow> apply_inc (obj_set prop v doc0) rest
         | None \<Rightarrow> Inl (Error ''+= on operands outside the embedded fragment'' JUndefined))"

fun apply_pull :: "obj \<Rightarrow> obj \<Rightarrow> js_error + obj" where
  "apply_pull doc [] = Inr doc"
| "apply_pull doc ((prop, pulled) # rest) =
     (if inherits doc prop then Inl (type_error ''(doc[prop] || []).filter is not a function'')
      else (case js_or (lookup doc prop) (JArr []) of
              JArr xs \<Rightarrow>
                apply_pull
                  (obj_set prop (JArr (filter (\<lambda>value. \<not> strict_eq value pulled) xs)) doc) rest
            | _ \<Rightarrow> Inl (type_error ''(doc[prop] || []).filter is not a function'')))"

definition set_values :: "jsval list \<Rightarrow> jsval list" where
  "set_values xs =
     fold (\<lambda>x seen. if list_ex (\<lambda>y. strict_eq y x) seen then seen else seen @ [x]) xs []"

fun apply_addToSet :: "obj \<Rightarrow> obj \<Rightarrow> js_error + obj" where
  "apply_addToSet doc [] = Inr doc"
| "apply_addToSet doc ((prop, added) # rest) =
     (if inherits doc prop then Inl (type_error ''object is not iterable'')
      else (case js_or (lookup doc prop) (JArr []) of
              JArr xs \<Rightarrow> apply_addToSet (obj_set prop (JArr (set_values xs)) doc) rest
            | JStr s \<Rightarrow>
                apply_addToSet (obj_set prop (JArr (set_values (js_values (JStr s)))) doc) rest
            | _ \<Rightarrow> Inl (type_error ''object is not iterable'')))"

definition apply_operator :: "obj \<Rightarrow> string \<Rightarrow> obj \<Rightarrow> js_error + obj" where
  "apply_operator doc key value =
     (if key = ''$set'' then Inr (fold (\<lambda>kv. obj_set (fst kv) (snd kv)) value doc)
      else if key = ''$unset'' then Inr (fold obj_delete (map fst value) doc)
      else if key = ''$inc'' then apply_inc doc value
      else if key = ''$pull'' then apply_pull doc value
      else if key = ''$addToSet'' then apply_addToSet doc value
      else Inl (Error (''@apostrophecms/sql does not support '' @ key) JUndefined))"

fun applyOperators :: "obj \<Rightarrow> (string \<times> obj) list \<Rightarrow> js_error + obj" where
  "applyOperators doc [] = Inr doc"
| "applyOperators doc ((key, value) # rest) =
     (case apply_operator doc key value of
        Inl e \<Rightarrow> Inl e
      | Inr doc' \<Rightarrow> applyOperators doc' rest)"

definition updateBody ::
  "env \<Rightarrow> int \<Rightarrow> collection_state \<Rightarrow> obj \<Rightarrow> (string \<times> obj) list \<Rightarrow> (js_error + reply) \<times> collection_state" where
  "updateBody env now c doc operations =
     (case applyOperators doc (rewrite_currentDate now operations) of
        Inl e \<Rightarrow> (Inl e, c)
      | Inr doc' \<Rightarrow>
          (case sql_update env (tbl c) (prepareForUpdate env (indexes c) doc') (lookup doc' ''_id'') of
             Inl e \<Rightarrow> (Inl e, c)
           | Inr t \<Rightarrow> (Inr (Result_nModified 1), c\<lparr>tbl := t\<rparr>)))"

definition upsert_insert ::
  "env \<Rightarrow> string \<Rightarrow> collection_state \<Rightarrow> (string \<times> obj) list \<Rightarrow> (js_error + reply) \<times> collection_state" where
  "upsert_insert env cuid c operations =
     (case map_of operations ''$set'' of
        Some doc \<Rightarrow> insertOne env cuid c doc
      | None \<Rightarrow> (Inl (compatibleError (type_error ''Cannot read properties of undefined'')), c))"

definition updateOne ::
  "env \<Rightarrow> string \<Rightarrow> int \<Rightarrow> collection_state \<Rightarrow> obj \<Rightarrow> (string \<times> obj) list \<Rightarrow> bool
     \<Rightarrow> (js_error + reply) \<times> collection_state" where
  "updateOne env cuid now c criteria operations upsert =
     (case findOne env c criteria of
        Inl e \<Rightarrow> (Inl e, c)
      | Inr None \<Rightarrow>
          (if upsert then upsert_insert env cuid c operations
           else (Inr (Result_nModified 0), c))
      | Inr (Some doc) \<Rightarrow> updateBody env now c doc operations)"

fun update_each ::
  "env \<Rightarrow> int \<Rightarrow> collection_state \<Rightarrow> obj list \<Rightarrow> (string \<times> obj) list \<Rightarrow> (js_error + reply) \<times> collection_state" where
  "update_each env now c [] operations = (Inr Undefined, c)"
| "update_each env now c (doc # docs) operations =
     (case updateBody env now c doc operations of
        (Inl e, c') \<Rightarrow> (Inl e, c')
      | (Inr r, c') \<Rightarrow> update_each env now c' docs operations)"

definition updateMany ::
  "env \<Rightarrow> string \<Rightarrow> int \<Rightarrow> collection_state \<Rightarrow> obj \<Rightarrow> (string \<times> obj) list \<Rightarrow> bool
     \<Rightarrow> (js_error + reply) \<times> collection_state" where
  "updateMany env cuid now c criteria operations upsert =
     (case toArray env c criteria query of
        Inl e \<Rightarrow> (Inl e, c)
      | Inr docs \<Rightarrow>
          (if upsert \<and> docs = [] then upsert_insert env cuid c operations
           else update_each env now c docs operations))"

definition createIndex ::
  "env \<Rightarrow> collection_state \<Rightarrow> obj \<Rightarrow> obj \<Rightarrow> js_error option \<times> collection_state" where
  "createIndex env c flds opts =
     (let columnNames = map (\<lambda>kv. mangleName (fst kv)) flds;
          c1 = c\<lparr>indexes := indexes c @ [Index flds opts]\<rparr>;
          missing = filter (\<lambda>columnName. columnName \<notin> set (columns (tbl c))) columnNames
      in case sql_alterTable env (tbl c) missing columnNames (truthy (lookup opts ''unique'')) of
           (None, t) \<Rightarrow> (None, c1\<lparr>tbl := t\<rparr>)
         | (Some e, t) \<Rightarrow>
             (if str_includes (''Error: '' @ message e) ''already exists''
              then (None, c1\<lparr>tbl := t\<rparr>)
              else (Some e, c1\<lparr>tbl := t\<rparr>)))"


subsection \<open>A concrete environment for running scenarios\<close>

text \<open>
  \<open>sift_fields\<close> is the matcher on criteria that are equalities of (dotted) property paths
  with primitive values, on documents that hold primitives there. \<open>toy_stringify\<close> and \<open>toy_parse\<close> are a small codec (a prefix code with unary
  lengths); the scenarios evaluate its round trip on the documents they store. \<open>sqlite3\<close> and \<open>mysql\<close> differ in the errors the backend
  reports.
\<close>

fun split_path :: "string \<Rightarrow> string list" where
  "split_path [] = [[]]"
| "split_path (c # s) =
     (if c = CHR ''.'' then [] # split_path s
      else (case split_path s of
              [] \<Rightarrow> [[c]]
            | k # ks \<Rightarrow> (c # k) # ks))"

fun path_get :: "jsval \<Rightarrow> string list \<Rightarrow> jsval" where
  "path_get v [] = v"
| "path_get v (k # ks) = path_get (get_prop v k) ks"

definition sift_fields :: "obj \<Rightarrow> obj \<Rightarrow> bool" where
  "sift_fields criteria doc =
     list_all (\<lambda>kv. strict_eq (path_get (JObj doc) (split_path (fst kv))) (snd kv)) criteria"

definition unary :: "nat \<Rightarrow> string" where
  "unary n = replicate n (CHR ''1'') @ '';''"

fun enc :: "jsval \<Rightarrow> string" where
  "enc JUndefined = ''u''"
| "enc JNull = ''z''"
| "enc (JBool b) = (if b then ''t'' else ''f'')"
| "enc (JNum n) = (if n < 0 then ''m'' @ unary (nat (- n)) else ''n'' @ unary (nat n))"
| "enc (JStr s) = ''s'' @ unary (length s) @ s"
| "enc (JDate t) = (if t < 0 then ''e'' @ unary (nat (- t)) else ''d'' @ unary (nat t))"
| "enc (JArr xs) = ''a'' @ unary (length xs) @ concat (map enc xs)"
| "enc (JObj kvs) =
     ''o'' @ unary (length kvs) @ concat (map (\<lambda>kv. unary (length (fst kv)) @ fst kv @ enc (snd kv)) kvs)"

fun read_unary :: "string \<Rightarrow> (nat \<times> string) option" where
  "read_unary [] = None"
| "read_unary (c # s) =
     (if c = CHR '';'' then Some (0, s)
      else if c = CHR ''1'' then map_option (\<lambda>p. (Suc (fst p), snd p)) (read_unary s)
      else None)"

fun dec :: "nat \<Rightarrow> string \<Rightarrow> (jsval \<times> string) option"
  and dec_items :: "nat \<Rightarrow> nat \<Rightarrow> string \<Rightarrow> (jsval list \<times> string) option"
  and dec_fields :: "nat \<Rightarrow> nat \<Rightarrow> string \<Rightarrow> (obj \<times> string) option" where
  "dec 0 s = None"
| "dec (Suc fuel) [] = None"
| "dec (Suc fuel) (c # s) =
     (if c = CHR ''u'' then Some (JUndefined, s)
      else if c = CHR ''z'' then Some (JNull, s)
      else if c = CHR ''t'' then Some (JBool True, s)
      else if c = CHR ''f'' then Some (JBool False, s)
      else if c = CHR ''n'' then map_option (\<lambda>p. (JNum (int (fst p)), snd p)) (read_unary s)
      else if c = CHR ''m'' then map_option (\<lambda>p. (JNum (- int (fst p)), snd p)) (read_unary s)
      else if c = CHR ''d'' then map_option (\<lambda>p. (JDate (int (fst p)), snd p)) (read_unary s)
      else if c = CHR ''e'' then map_option (\<lambda>p. (JDate (- int (fst p)), snd p)) (read_unary s)
      else if c = CHR ''s'' then
        (case read_unary s of
           None \<Rightarrow> None
         | Some (n, r) \<Rightarrow> if length r < n then None else Some (JStr (take n r), drop n r))
      else if c = CHR ''a'' then
        (case read_unary s of
           None \<Rightarrow> None
         | Some (n, r) \<Rightarrow> map_option (\<lambda>p. (JArr (fst p), snd p)) (dec_items fuel n r))
      else if c = CHR ''o'' then
        (case read_unary s of
           None \<Rightarrow> None
         | Some (n, r) \<Rightarrow> map_option (\<lambda>p. (JObj (fst p), snd p)) (dec_fields fuel n r))
      else None)"
| "dec_items fuel 0 s = Some ([], s)"
| "dec_items fuel (Suc n) s =
     (case dec fuel s of
        None \<Rightarrow> None
      | Some (x, r) \<Rightarrow> map_option (\<lambda>p. (x # fst p, snd p)) (dec_items fuel n r))"
| "dec_fields fuel 0 s = Some ([], s)"
| "dec_fields fuel (Suc n) s =
     (case read_unary s of
        None \<Rightarrow> None
      | Some (m, r) \<Rightarrow>
          (if length r < m then None
           else (case dec fuel (drop m r) of
                   None \<Rightarrow> None
                 | Some (x, r') \<Rightarrow>
                     map_option (\<lambda>p. ((take m r, x) # fst p, snd p)) (dec_fields fuel n r'))))"

definition toy_stringify :: "obj \<Rightarrow> string" where
  "toy_stringify doc = enc (JObj doc)"

definition toy_parse :: "jsval \<Rightarrow> obj" where
  "toy_parse cell =
     (case cell of
        JStr s \<Rightarrow> (case dec (Suc (length s)) s of Some (JObj kvs, []) \<Rightarrow> kvs | _ \<Rightarrow> [])
      | _ \<Rightarrow> [])"

fun sqlite_error :: "backend_failure \<Rightarrow> js_error" where
  "sqlite_error UniqueFailed = Error ''SQLITE_CONSTRAINT: UNIQUE constraint failed'' (JStr ''SQLITE_CONSTRAINT'')"
| "sqlite_error NoSuchColumn = Error ''SQLITE_ERROR: no such column'' (JStr ''SQLITE_ERROR'')"
| "sqlite_error DuplicateColumn = Error ''SQLITE_ERROR: duplicate column name'' (JStr ''SQLITE_ERROR'')"
| "sqlite_error IndexExists = Error ''SQLITE_ERROR: index already exists'' (JStr ''SQLITE_ERROR'')"

fun mysql_error :: "backend_failure \<Rightarrow> js_error" where
  "mysql_error UniqueFailed = Error ''ER_DUP_ENTRY: Duplicate entry'' (JStr ''ER_DUP_ENTRY'')"
| "mysql_error NoSuchColumn = Error ''ER_BAD_FIELD_ERROR: Unknown column'' (JStr ''ER_BAD_FIELD_ERROR'')"
| "mysql_error DuplicateColumn = Error ''ER_DUP_FIELDNAME: Duplicate column name'' (JStr ''ER_DUP_FIELDNAME'')"
| "mysql_error IndexExists = Error ''ER_DUP_KEYNAME: Duplicate key name'' (JStr ''ER_DUP_KEYNAME'')"

definition sqlite3 :: env where
  "sqlite3 = \<lparr>sift = sift_fields, EJSON_stringify = toy_stringify, EJSON_parse = toy_parse,
              backend_error = sqlite_error, order_by = (\<lambda>ob rs. rs)\<rparr>"

definition mysql :: env where
  "mysql = \<lparr>sift = sift_fields, EJSON_stringify = toy_stringify, EJSON_parse = toy_parse,
            backend_error = mysql_error, order_by = (\<lambda>ob rs. rs)\<rparr>"

definition pypy :: obj where
  "pypy = [(''_id'', JStr ''1''), (''name'', JStr ''pypy''), (''fur'', JStr ''black'')]"

definition spyspy :: obj where
  "spyspy = [(''_id'', JStr ''2''), (''name'', JStr ''spyspy''), (''fur'', JStr ''black'')]"

definition spike :: obj where
  "spike = [(''name'', JStr ''spike''), (''fur'', JStr ''tortoiseshell'')]"

definition fresh :: collection_state where
  "fresh = collection \<lparr>knex = None, metadata = None\<rparr>"

definition one_cat :: collection_state where
  "one_cat = snd (insertOne sqlite3 ''c1'' fresh pypy)"

definition two_cats :: collection_state where
  "two_cats = snd (insertOne sqlite3 ''c2'' one_cat spyspy)"

definition other_pypy :: obj where
  "other_pypy = [(''_id'', JStr ''2''), (''name'', JStr ''pypy''), (''fur'', JStr ''white'')]"

definition nested_doc :: obj where
  "nested_doc = [(''_id'', JStr ''1''), (''a'', JObj [(''b'', JNum 1)]), (''a.b'', JNum 2)]"

definition tagged_doc :: obj where
  "tagged_doc = [(''_id'', JStr ''1''), (''tags'', JArr [JStr ''a''])]"

text \<open>A document is stored first and the index on \<^verbatim>\<open>fur\<close> is created afterwards.\<close>

definition inserted_then_indexed :: collection_state where
  "inserted_then_indexed = snd (createIndex sqlite3 one_cat [(''fur'', JNum 1)] [])"

text \<open>An index on the nested property \<^verbatim>\<open>a.b\<close> is created first, the document stored afterwards.\<close>

definition inner_doc :: obj where
  "inner_doc = [(''_id'', JStr ''1''), (''a'', JObj [(''b'', JStr ''x'')])]"

definition indexed_then_inserted :: collection_state where
  "indexed_then_inserted =
     snd (insertOne sqlite3 ''c1'' (snd (createIndex sqlite3 fresh [(''a.b'', JNum 1)] [])) inner_doc)"

text \<open>Indexes on \<^verbatim>\<open>a\<close> and on \<^verbatim>\<open>a.b\<close>, then one document.\<close>

definition nested_columns :: collection_state where
  "nested_columns =
     snd (insertOne sqlite3 ''c1''
            (snd (createIndex sqlite3 (snd (createIndex sqlite3 fresh [(''a'', JNum 1)] []))
                    [(''a.b'', JNum 1)] []))
            nested_doc)"

text \<open>The module created with \<^verbatim>\<open>metadata: {folder: 'sql-metadata', locked: true}\<close>.\<close>

definition locked_collection :: collection_state where
  "locked_collection =
     snd (insertOne sqlite3 ''c1''
            (collection \<lparr>knex = None,
                         metadata = Some \<lparr>folder = ''sql-metadata'', locked = True\<rparr>\<rparr>)
            pypy)"

definition tagged :: collection_state where
  "tagged = snd (insertOne sqlite3 ''c1'' fresh tagged_doc)"

text \<open>A unique index on \<^verbatim>\<open>name\<close>, then one document, on the backend of \<open>env\<close>.\<close>

definition unique_names :: "env \<Rightarrow> collection_state" where
  "unique_names env =
     snd (insertOne env ''c1''
            (snd (createIndex env fresh [(''name'', JNum 1)] [(''unique'', JBool True)])) pypy)"

subsection \<open>The primary key and the states a collection can reach\<close>

text \<open>
  The table is created with \<^verbatim>\<open>_id\<close> as its primary key: no two rows hold the same non-NULL
  \<^verbatim>\<open>_id\<close>. \<open>reachable env c\<close> are the collections that calls of the API produce from a table
  the module created.
\<close>

definition primary_key_holds :: "table \<Rightarrow> bool" where
  "primary_key_holds t =
     (([''_id''], True) \<in> set (index_defs t) \<and> \<not> violates [([''_id''], True)] (rows t))"

inductive reachable :: "env \<Rightarrow> collection_state \<Rightarrow> bool" for env :: env where
  start: "reachable env (collection \<lparr>knex = None, metadata = m\<rparr>)"
| createIndex: "reachable env c \<Longrightarrow> reachable env (snd (createIndex env c flds opts))"
| insertOne: "reachable env c \<Longrightarrow> reachable env (snd (insertOne env cuid c doc))"
| insertMany: "reachable env c \<Longrightarrow> reachable env (snd (insertMany env cuids c docs))"
| replaceOne: "reachable env c \<Longrightarrow> reachable env (snd (replaceOne env c doc))"
| updateOne:
    "reachable env c \<Longrightarrow> reachable env (snd (updateOne env cuid now c criteria operations upsert))"
| updateMany:
    "reachable env c \<Longrightarrow> reachable env (snd (updateMany env cuid now c criteria operations upsert))"
| deleteOne: "reachable env c \<Longrightarrow> reachable env (snd (deleteOne env c criteria))"
| deleteMany: "reachable env c \<Longrightarrow> reachable env (snd (deleteMany env c criteria))"

text \<open>
  Under the unique index on \<^verbatim>\<open>name\<close>, on sqlite: the documents \<^verbatim>\<open>pypy\<close> and \<^verbatim>\<open>spyspy\<close>.
\<close>

definition two_names :: collection_state where
  "two_names = snd (insertOne sqlite3 ''c2'' (unique_names sqlite3) spyspy)"

definition third_pypy :: obj where
  "third_pypy = [(''_id'', JStr ''3''), (''name'', JStr ''pypy''), (''fur'', JStr ''white'')]"

section \<open>Properties\<close>

subsection \<open>Facts about objects and queries\<close>

lemma lookup_obj_set: "lookup (obj_set k v kvs) k' = (if k' = k then v else lookup kvs k')"
  by (induction kvs) auto

lemma lookup_absent: "k \<notin> set (map fst kvs) \<Longrightarrow> lookup kvs k = JUndefined"
  by (induction kvs) auto




text \<open>Empty criteria push nothing down, so \<^verbatim>\<open>find({})\<close> reads every row.\<close>

lemma deepGet_empty: "deepGet (JObj []) key = JUndefined"
  by (simp add: deepGet.simps js_or_def)

lemma pushdown_empty: "pushdown (JObj []) fs = []"
  by (cases fs) (simp_all add: deepGet_empty)

lemma wheres_of_empty: "wheres_of ixs [] = []"
  by (simp add: wheres_of_def pushdown_empty)

lemma toArray_all:
  "toArray env c [] query =
     Inr (map (decode_row env) (filter (\<lambda>row. sift env [] (decode_row env row)) (rows (tbl c))))"
  by (simp add: toArray_def query_def wheres_of_empty sql_select_def unknown_column_def)

lemma toArray_limit_one:
  "toArray env c P (limit 1 query) = Inr ds \<Longrightarrow> length ds \<le> 1"
  by (cases "sql_select env (tbl c) None (wheres_of (indexes c) P)")
     (auto simp: toArray_def limit_def query_def Let_def)

subsection \<open>Equality pushdown\<close>

text \<open>
  C1. The claim is that registering indexes never changes what \<^verbatim>\<open>find(P).toArray()\<close>
  returns. In the source \<^verbatim>\<open>createIndex\<close> adds the column and fills nothing in, so a row
  stored before the index has NULL there and the pushed-down equality drops it: after
  \<^verbatim>\<open>insertOne({_id: '1', name: 'pypy', fur: 'black'})\<close> and \<^verbatim>\<open>createIndex({fur: 1})\<close>,
  \<^verbatim>\<open>find({fur: 'black'})\<close> returns nothing, while the same table queried with the implicit
  index alone, and the collection before the index was created, return the document.
  With an index on the nested property \<^verbatim>\<open>a.b\<close> created before the document is stored,
  \<^verbatim>\<open>find({'a.b': 'x'})\<close> names the column \<^verbatim>\<open>a.b\<close> where the table has \<^verbatim>\<open>a__b\<close>, and the
  query fails in the backend; with the implicit index alone it returns the document.
\<close>

theorem pushdown_changes_results:
  "toArray sqlite3 inserted_then_indexed [(''fur'', JStr ''black'')] query = Inr [] \<and>
   toArray sqlite3 (inserted_then_indexed\<lparr>indexes := indexes fresh\<rparr>) [(''fur'', JStr ''black'')] query
     = Inr [pypy] \<and>
   toArray sqlite3 one_cat [(''fur'', JStr ''black'')] query = Inr [pypy] \<and>
   toArray sqlite3 indexed_then_inserted [(''a.b'', JStr ''x'')] query
     = Inl (Error ''SQLITE_ERROR: no such column'' (JStr ''SQLITE_ERROR'')) \<and>
   toArray sqlite3 (indexed_then_inserted\<lparr>indexes := indexes fresh\<rparr>) [(''a.b'', JStr ''x'')] query
     = Inr [inner_doc]"
  by code_simp

subsection \<open>Promoted columns on read\<close>

text \<open>
  C2. The claim is that a read deep-sets the value of every nested promoted column into the
  decoded document. \<^verbatim>\<open>toArray\<close> returns \<^verbatim>\<open>EJSON.parse(row._ext_json)\<close> and reads no other
  column: with columns for \<^verbatim>\<open>a\<close> and \<^verbatim>\<open>a.b\<close>, the row below holds 2 in column \<^verbatim>\<open>a__b\<close> and
  the document returned for it still has 1 at \<^verbatim>\<open>a.b\<close>.
\<close>

theorem read_ignores_promoted_columns:
  "map (\<lambda>row. lookup row ''a__b'') (rows (tbl nested_columns)) = [JNum 2] \<and>
   columns (tbl nested_columns) = [''_id'', ''_ext_json'', ''a'', ''a__b''] \<and>
   toArray sqlite3 nested_columns [] query
     = Inr [[(''_id'', JStr ''1''), (''a'', JObj [(''b'', JNum 1)]), (''a.b'', JNum 2)]]"
  by code_simp

subsection \<open>Locked deployments\<close>

text \<open>
  C3. The claim is that in a locked deployment an update touching a property without a
  metadata entry fails with a schema violation and writes nothing. The module reads only
  \<^verbatim>\<open>knex\<close> from its options, so with \<^verbatim>\<open>locked: true\<close> the update
  \<^verbatim>\<open>updateOne({name: 'pypy'}, {$inc: {visits: 1}})\<close> succeeds and rewrites the row.
\<close>

theorem locked_update_writes:
  "toArray sqlite3 locked_collection [] query = Inr [pypy] \<and>
   fst (updateOne sqlite3 ''c2'' 0 locked_collection [(''name'', JStr ''pypy'')]
          [(''$inc'', [(''visits'', JNum 1)])] False) = Inr (Result_nModified 1) \<and>
   toArray sqlite3
     (snd (updateOne sqlite3 ''c2'' 0 locked_collection [(''name'', JStr ''pypy'')]
             [(''$inc'', [(''visits'', JNum 1)])] False)) [] query
     = Inr [pypy @ [(''visits'', JNum 1)]]"
  by code_simp

subsection \<open>The operator \<^verbatim>\<open>$addToSet\<close>\<close>

text \<open>
  C4. The claim is that \<^verbatim>\<open>$addToSet\<close> appends the value unless it is present already.
  The source builds \<^verbatim>\<open>new Set(doc[prop] || [], added)\<close>, which never reads \<^verbatim>\<open>added\<close>:
  adding \<^verbatim>\<open>'b'\<close> to \<^verbatim>\<open>tags: ['a']\<close> reports one modified document and leaves
  \<^verbatim>\<open>tags: ['a']\<close>.
\<close>

theorem addToSet_never_adds:
  "applyOperators tagged_doc [(''$addToSet'', [(''tags'', JStr ''b'')])] = Inr tagged_doc \<and>
   fst (updateOne sqlite3 ''c2'' 0 tagged [(''_id'', JStr ''1'')]
          [(''$addToSet'', [(''tags'', JStr ''b'')])] False) = Inr (Result_nModified 1) \<and>
   findOne sqlite3
     (snd (updateOne sqlite3 ''c2'' 0 tagged [(''_id'', JStr ''1'')]
             [(''$addToSet'', [(''tags'', JStr ''b'')])] False)) [(''_id'', JStr ''1'')]
     = Inr (Some [(''_id'', JStr ''1''), (''tags'', JArr [JStr ''a''])])"
  by code_simp

subsection \<open>The operator \<^verbatim>\<open>$pull\<close>\<close>








subsection \<open>Skip and limit\<close>

text \<open>
  C6. \<^verbatim>\<open>find(P).skip(s).limit(l).toArray()\<close> passes neither count to the SQL query: the rows
  are selected, decoded and filtered by the matcher as without them, and only then are the
  first \<open>s\<close> documents dropped and the rest cut to \<open>l\<close>, for \<open>s \<ge> 0\<close> and \<open>l > 0\<close>. The
  source guards the cut with \<^verbatim>\<open>if (limitParam)\<close>, so \<open>limit 0\<close> cuts nothing.
\<close>

theorem skip_then_limit_in_memory:
  assumes "0 \<le> s" and "0 < l"
  shows "toArray env c P (limit l (skip s q)) =
           map_sum (\<lambda>e. e) (\<lambda>ds. take (nat l) (drop (nat s) ds))
             (toArray env c P (q\<lparr>skipParam := None, limitParam := None\<rparr>))
         \<and> toArray env c P (limit 0 (skip s q)) =
           map_sum (\<lambda>e. e) (\<lambda>ds. drop (nat s) ds)
             (toArray env c P (q\<lparr>skipParam := None, limitParam := None\<rparr>))"
  using assms
  by (cases "sql_select env (tbl c) (map_option (map (\<lambda>p. (fst p, snd p > 0))) (sortParams q))
               (wheres_of (indexes c) P)")
     (simp_all add: toArray_def limit_def skip_def Let_def)

theorem skip_then_limit_witness:
  "(0::int) \<le> 1 \<and> (0::int) < 1 \<and>
   toArray sqlite3 two_cats [] query = Inr [pypy, spyspy] \<and>
   toArray sqlite3 two_cats [] (limit 1 (skip 1 query)) = Inr [spyspy] \<and>
   toArray sqlite3 two_cats [] (limit 0 (skip 1 query)) = Inr [spyspy]"
proof -
  have a: "(0::int) \<le> 1" and b: "(0::int) < 1" by simp_all
  have q: "toArray sqlite3 two_cats [] (query\<lparr>skipParam := None, limitParam := None\<rparr>)
             = Inr [pypy, spyspy]"
    by code_simp
  have q': "toArray sqlite3 two_cats [] query = Inr [pypy, spyspy]"
    by code_simp
  show ?thesis
    using skip_then_limit_in_memory [OF a b, of sqlite3 two_cats "[]" query] q q' by simp
qed

text \<open>
  With \<open>limit 0\<close> the one stored document is returned, where cutting to 0 documents would
  return none.
\<close>

theorem limit_zero_counterexample:
  "toArray sqlite3 one_cat [] (limit 0 (skip 0 query))
     \<noteq> map_sum (\<lambda>e. e) (\<lambda>ds. take 0 (drop 0 ds)) (toArray sqlite3 one_cat [] query)"
  by code_simp

subsection \<open>What mutating calls return\<close>

text \<open>
  C7. The claim is that every mutating call returns a descriptor with counts. The loop of
  \<^verbatim>\<open>updateMany\<close> ends without a \<^verbatim>\<open>return\<close>: the update below rewrites the stored document
  and resolves to \<^verbatim>\<open>undefined\<close>.
\<close>

theorem updateMany_returns_undefined:
  "fst (updateMany sqlite3 ''c2'' 0 one_cat [(''name'', JStr ''pypy'')]
          [(''$set'', [(''fur'', JStr ''white'')])] False) = Inr Undefined \<and>
   toArray sqlite3
     (snd (updateMany sqlite3 ''c2'' 0 one_cat [(''name'', JStr ''pypy'')]
             [(''$set'', [(''fur'', JStr ''white'')])] False)) [] query
     = Inr [[(''_id'', JStr ''1''), (''name'', JStr ''pypy''), (''fur'', JStr ''white'')]]"
  by code_simp


subsection \<open>Uniqueness conflicts\<close>

lemma clash_violates:
  assumes "(cols, True) \<in> set ixs" and "r \<in> set rs"
      and "key_of cols r = key_of cols row"
      and "list_all (\<lambda>col. \<not> sql_null (lookup r col)) cols"
  shows "violates ixs (rs @ [row])"
proof -
  let ?nn = "\<lambda>r. list_all (\<lambda>col. \<not> sql_null (lookup r col)) cols"
  from assms(3) have "map (lookup r) cols = map (lookup row) cols" by (simp add: key_of_def)
  then have "\<forall>col\<in>set cols. lookup r col = lookup row col" by (simp add: map_eq_conv)
  with assms(4) have nn: "?nn row" by (simp add: list_all_iff)
  from assms(2) obtain ys zs where rs: "rs = ys @ r # zs" by (meson split_list)
  have "\<not> distinct (map (key_of cols) (filter ?nn (rs @ [row])))"
    using rs nn assms(3,4) by simp
  then have "snd (cols, True) \<and>
      \<not> distinct (map (key_of (fst (cols, True)))
            (filter (\<lambda>r. list_all (\<lambda>col. \<not> sql_null (lookup r col)) (fst (cols, True))) (rs @ [row])))"
    by simp
  with assms(1) show ?thesis
    unfolding violates_def list_ex_iff by (rule rev_bexI)
qed

text \<open>
  The insert path. When the row to insert repeats, on the columns of a unique index, the
  values of a stored row, and the backend reports that with the code \<^verbatim>\<open>SQLITE_CONSTRAINT\<close>,
  then \<^verbatim>\<open>insertOne\<close> throws the error \<^verbatim>\<open>Not Unique\<close> with code 11000 and the collection is
  as before. \<^verbatim>\<open>compatibleError\<close> translates this one code and passes every other error on.
\<close>

lemma insert_conflict_is_not_unique:
  assumes "(cols, True) \<in> set (index_defs (tbl c))"
      and "r \<in> set (rows (tbl c))"
      and "key_of cols r = key_of cols (prepareForInsert env cuid (indexes c) doc)"
      and "list_all (\<lambda>col. \<not> sql_null (lookup r col)) cols"
      and "\<not> unknown_column (tbl c) (map fst (prepareForInsert env cuid (indexes c) doc))"
      and "code (backend_error env UniqueFailed) = JStr ''SQLITE_CONSTRAINT''"
  shows "insertOne env cuid c doc = (Inl (Error ''Not Unique'' (JNum 11000)), c)"
proof -
  have "violates (index_defs (tbl c)) (rows (tbl c) @ [prepareForInsert env cuid (indexes c) doc])"
    using assms(1-4) by (rule clash_violates)
  with assms(5) have "sql_insert env (tbl c) (prepareForInsert env cuid (indexes c) doc)
                        = Inl (backend_error env UniqueFailed)"
    by (simp add: sql_insert_def)
  with assms(6) show ?thesis by (simp add: insertOne_def compatibleError_def)
qed

text \<open>
  Two documents named \<^verbatim>\<open>pypy\<close> under a unique index on \<^verbatim>\<open>name\<close>, on the sqlite backend:
  the second insert is refused with code 11000 and one such document is stored.
\<close>

lemma insert_conflict_example:
  "([''name''], True) \<in> set (index_defs (tbl (unique_names sqlite3))) \<and>
   code (backend_error sqlite3 UniqueFailed) = JStr ''SQLITE_CONSTRAINT'' \<and>
   insertOne sqlite3 ''c2'' (unique_names sqlite3) other_pypy
     = (Inl (Error ''Not Unique'' (JNum 11000)), unique_names sqlite3) \<and>
   toArray sqlite3 (snd (insertOne sqlite3 ''c2'' (unique_names sqlite3) other_pypy))
     [(''name'', JStr ''pypy'')] query = Inr [pypy]"
proof -
  let ?r = "[(''_id'', JStr ''1''), (''_ext_json'', JStr (toy_stringify pypy)), (''name'', JStr ''pypy'')]"
  have h1: "([''name''], True) \<in> set (index_defs (tbl (unique_names sqlite3)))"
    by code_simp
  have h2: "?r \<in> set (rows (tbl (unique_names sqlite3)))"
    by code_simp
  have h3: "key_of [''name''] ?r
              = key_of [''name''] (prepareForInsert sqlite3 ''c2'' (indexes (unique_names sqlite3)) other_pypy)"
    by code_simp
  have h4: "list_all (\<lambda>col. \<not> sql_null (lookup ?r col)) [''name'']"
    by code_simp
  have h5: "\<not> unknown_column (tbl (unique_names sqlite3))
               (map fst (prepareForInsert sqlite3 ''c2'' (indexes (unique_names sqlite3)) other_pypy))"
    by code_simp
  have h6: "code (backend_error sqlite3 UniqueFailed) = JStr ''SQLITE_CONSTRAINT''"
    by code_simp
  have stored: "toArray sqlite3 (unique_names sqlite3) [(''name'', JStr ''pypy'')] query = Inr [pypy]"
    by code_simp
  show ?thesis
    using insert_conflict_is_not_unique [OF h1 h2 h3 h4 h5 h6] h1 h6 stored by simp
qed

text \<open>
  On a backend that reports the conflict with another code the error of an insert reaches
  the caller as the backend raised it.
\<close>

lemma mysql_conflict_passes_through:
  "fst (insertOne mysql ''c2'' (unique_names mysql) other_pypy)
     = Inl (Error ''ER_DUP_ENTRY: Duplicate entry'' (JStr ''ER_DUP_ENTRY''))"
  by code_simp

text \<open>
  C8. The claim is that a uniqueness failure on an insert or an update reaches the caller as
  the stable conflict code. \<^verbatim>\<open>insertOne\<close> and \<^verbatim>\<open>insertMany\<close> pass what they catch through
  \<^verbatim>\<open>compatibleError\<close>; \<^verbatim>\<open>replaceOne\<close> and \<^verbatim>\<open>updateBody\<close> catch nothing. On sqlite, with a
  unique index on \<^verbatim>\<open>name\<close> and the documents \<^verbatim>\<open>pypy\<close> and \<^verbatim>\<open>spyspy\<close> stored, renaming the
  second to \<^verbatim>\<open>pypy\<close> by \<^verbatim>\<open>updateOne\<close> or by \<^verbatim>\<open>replaceOne\<close> throws the backend's own
  \<^verbatim>\<open>SQLITE_CONSTRAINT\<close> error, where inserting a third document of that name throws
  \<^verbatim>\<open>Not Unique\<close> with code 11000; one document named \<^verbatim>\<open>pypy\<close> is stored throughout.
\<close>

theorem update_conflict_is_not_translated:
  "fst (updateOne sqlite3 ''c3'' 0 two_names [(''_id'', JStr ''2'')]
          [(''$set'', [(''name'', JStr ''pypy'')])] False)
     = Inl (Error ''SQLITE_CONSTRAINT: UNIQUE constraint failed'' (JStr ''SQLITE_CONSTRAINT'')) \<and>
   fst (replaceOne sqlite3 two_names
          [(''_id'', JStr ''2''), (''name'', JStr ''pypy''), (''fur'', JStr ''black'')])
     = Inl (Error ''SQLITE_CONSTRAINT: UNIQUE constraint failed'' (JStr ''SQLITE_CONSTRAINT'')) \<and>
   fst (insertOne sqlite3 ''c3'' two_names third_pypy) = Inl (Error ''Not Unique'' (JNum 11000)) \<and>
   toArray sqlite3 two_names [] query = Inr [pypy, spyspy] \<and>
   toArray sqlite3
     (snd (updateOne sqlite3 ''c3'' 0 two_names [(''_id'', JStr ''2'')]
             [(''$set'', [(''name'', JStr ''pypy'')])] False)) [] query = Inr [pypy, spyspy]"
  by code_simp

subsection \<open>deleteMany\<close>

text \<open>Every write keeps the primary key, so it holds of every reachable collection.\<close>

lemma violates_member:
  "ix \<in> set ixs \<Longrightarrow> \<not> violates ixs rs \<Longrightarrow> \<not> violates [ix] rs"
  by (auto simp: violates_def list_ex_iff)

lemma violates_filter:
  "\<not> violates ixs rs \<Longrightarrow> \<not> violates ixs (filter P rs)"
proof -
  have "distinct (map f (filter Q rs)) \<Longrightarrow> distinct (map f (filter Q (filter P rs)))"
    for f :: "obj \<Rightarrow> jsval list" and Q
  proof -
    assume "distinct (map f (filter Q rs))"
    then have "distinct (map f (filter P (filter Q rs)))" by (rule distinct_map_filter)
    moreover have "filter P (filter Q rs) = filter Q (filter P rs)" by (induction rs) auto
    ultimately show ?thesis by simp
  qed
  then show "\<not> violates ixs rs \<Longrightarrow> \<not> violates ixs (filter P rs)"
    unfolding violates_def list_ex_iff by blast
qed

lemma key_createTable: "primary_key_holds createTable"
  by (simp add: primary_key_holds_def createTable_def violates_def)

lemma key_sql_insert:
  "primary_key_holds t \<Longrightarrow> sql_insert env t row = Inr t' \<Longrightarrow> primary_key_holds t'"
  by (auto simp: primary_key_holds_def sql_insert_def split: if_splits dest: violates_member)

lemma key_sql_update:
  "primary_key_holds t \<Longrightarrow> sql_update env t row i = Inr t' \<Longrightarrow> primary_key_holds t'"
  by (auto simp: primary_key_holds_def sql_update_def Let_def split: if_splits dest: violates_member)

lemma key_sql_delete:
  "primary_key_holds t \<Longrightarrow> sql_delete t ids = Inr (n, t') \<Longrightarrow> primary_key_holds t'"
  by (auto simp: primary_key_holds_def sql_delete_def split: if_splits dest: violates_filter)

lemma key_sql_delete_where_id:
  "primary_key_holds t \<Longrightarrow> sql_delete_where_id t v = Inr (n, t') \<Longrightarrow> primary_key_holds t'"
  by (auto simp: primary_key_holds_def sql_delete_where_id_def sql_delete_def
           split: if_splits dest: violates_filter)

lemma key_add_columns:
  "primary_key_holds t \<Longrightarrow> primary_key_holds (snd (add_columns env t ns))"
  by (induction ns arbitrary: t) (auto simp: primary_key_holds_def)

lemma key_sql_alterTable:
  "primary_key_holds t \<Longrightarrow> primary_key_holds (snd (sql_alterTable env t newcols ixcols uniq))"
  using key_add_columns [of t env newcols]
  by (cases "add_columns env t newcols")
     (auto simp: sql_alterTable_def primary_key_holds_def split: option.splits)

lemma key_createIndex:
  "primary_key_holds (tbl c) \<Longrightarrow> primary_key_holds (tbl (snd (createIndex env c flds opts)))"
  using key_sql_alterTable
    [of "tbl c" env
        "filter (\<lambda>columnName. columnName \<notin> set (columns (tbl c))) (map (\<lambda>kv. mangleName (fst kv)) flds)"
        "map (\<lambda>kv. mangleName (fst kv)) flds" "truthy (lookup opts ''unique'')"]
  by (cases "sql_alterTable env (tbl c)
               (filter (\<lambda>columnName. columnName \<notin> set (columns (tbl c)))
                  (map (\<lambda>kv. mangleName (fst kv)) flds))
               (map (\<lambda>kv. mangleName (fst kv)) flds) (truthy (lookup opts ''unique''))")
     (auto simp: createIndex_def Let_def split: option.splits)

lemma key_insertOne:
  "primary_key_holds (tbl c) \<Longrightarrow> primary_key_holds (tbl (snd (insertOne env cuid c doc)))"
  by (auto simp: insertOne_def split: sum.splits dest: key_sql_insert)

lemma key_insert_each:
  "primary_key_holds (tbl c) \<Longrightarrow> primary_key_holds (tbl (snd (insert_each env cuids i c docs)))"
  by (induction docs arbitrary: c i) (auto split: sum.splits dest: key_sql_insert)

lemma key_insertMany:
  "primary_key_holds (tbl c) \<Longrightarrow> primary_key_holds (tbl (snd (insertMany env cuids c docs)))"
  using key_insert_each [of c env cuids 0 docs]
  by (cases "insert_each env cuids 0 c docs") (auto simp: insertMany_def split: option.splits)

lemma key_replaceOne:
  "primary_key_holds (tbl c) \<Longrightarrow> primary_key_holds (tbl (snd (replaceOne env c doc)))"
  by (auto simp: replaceOne_def split: sum.splits dest: key_sql_update)

lemma key_updateBody:
  "primary_key_holds (tbl c) \<Longrightarrow>
   primary_key_holds (tbl (snd (updateBody env now c doc operations)))"
  by (auto simp: updateBody_def split: sum.splits dest: key_sql_update)

lemma key_upsert_insert:
  "primary_key_holds (tbl c) \<Longrightarrow>
   primary_key_holds (tbl (snd (upsert_insert env cuid c operations)))"
  by (auto simp: upsert_insert_def split: option.splits dest: key_insertOne)

lemma key_updateOne:
  "primary_key_holds (tbl c) \<Longrightarrow>
   primary_key_holds (tbl (snd (updateOne env cuid now c criteria operations upsert)))"
  by (auto simp: updateOne_def split: sum.splits option.splits
           dest: key_updateBody key_upsert_insert)

lemma key_update_each:
  "primary_key_holds (tbl c) \<Longrightarrow>
   primary_key_holds (tbl (snd (update_each env now c docs operations)))"
proof (induction docs arbitrary: c)
  case Nil
  then show ?case by simp
next
  case (Cons doc docs)
  obtain r c' where u: "updateBody env now c doc operations = (r, c')"
    by (cases "updateBody env now c doc operations")
  with key_updateBody [OF Cons.prems, of env now doc operations]
  have "primary_key_holds (tbl c')" by simp
  with Cons.IH u show ?case by (cases r) auto
qed

lemma key_updateMany:
  "primary_key_holds (tbl c) \<Longrightarrow>
   primary_key_holds (tbl (snd (updateMany env cuid now c criteria operations upsert)))"
  by (auto simp: updateMany_def split: sum.splits dest: key_update_each key_upsert_insert)

lemma key_deleteOne:
  "primary_key_holds (tbl c) \<Longrightarrow> primary_key_holds (tbl (snd (deleteOne env c criteria)))"
  by (auto simp: deleteOne_def split: sum.splits list.splits dest: key_sql_delete_where_id)

lemma key_deleteMany:
  "primary_key_holds (tbl c) \<Longrightarrow> primary_key_holds (tbl (snd (deleteMany env c criteria)))"
  by (auto simp: deleteMany_def Let_def split: sum.splits dest: key_sql_delete)

lemma reachable_primary_key: "reachable env c \<Longrightarrow> primary_key_holds (tbl c)"
proof (induction rule: reachable.induct)
  case (start m)
  then show ?case by (simp add: collection_def key_createTable)
qed (simp_all add: key_createIndex key_insertOne key_insertMany key_replaceOne key_updateOne
       key_updateMany key_deleteOne key_deleteMany)

lemma at_most_one_with_id:
  "distinct (map f rs) \<Longrightarrow> length (filter (\<lambda>r. f r = i) rs) \<le> 1"
proof (induction rs)
  case Nil
  then show ?case by simp
next
  case (Cons r rs)
  show ?case
  proof (cases "f r = i")
    case True
    with Cons.prems have "\<forall>x\<in>set rs. f x \<noteq> i"
      by (metis distinct.simps(2) imageI list.simps(9) set_map)
    then have "filter (\<lambda>r. f r = i) rs = []" by (simp add: filter_empty_conv)
    then show ?thesis by simp
  next
    case False
    with Cons show ?thesis by simp
  qed
qed

lemma sql_delete_one:
  assumes "primary_key_holds t"
      and "sql_delete t [i] = Inr (n, t')"
  shows "0 \<le> n \<and> n \<le> 1 \<and> int (length (rows t')) = int (length (rows t)) - n"
proof -
  let ?m = "id_matches [i]"
  let ?nn = "\<lambda>r. \<not> sql_null (lookup r ''_id'')"
  from assms(2) have n: "n = int (length (filter ?m (rows t)))"
    and t': "rows t' = filter (\<lambda>r. \<not> ?m r) (rows t)"
    by (auto simp: sql_delete_def split: if_splits)
  from assms(1) have "distinct (map (key_of [''_id'']) (filter ?nn (rows t)))"
    by (simp add: primary_key_holds_def violates_def)
  then have "length (filter (\<lambda>r. key_of [''_id''] r = [i]) (filter ?nn (rows t))) \<le> 1"
    by (rule at_most_one_with_id)
  moreover have "filter (\<lambda>r. key_of [''_id''] r = [i]) (filter ?nn (rows t)) = filter ?m (rows t)"
    by (auto simp: key_of_def id_matches_def intro: filter_cong)
  ultimately have "length (filter ?m (rows t)) \<le> 1" by simp
  moreover have "length (filter ?m (rows t)) + length (filter (\<lambda>r. \<not> ?m r) (rows t)) = length (rows t)"
    by (rule sum_length_filter_compl)
  ultimately show ?thesis using n t' by simp
qed

text \<open>
  C9. \<^verbatim>\<open>deleteMany\<close> selects with \<^verbatim>\<open>limit(1)\<close>: on a table whose primary key holds (as it
  does of every reachable collection), for every criteria, a call that returns reports
  \<^verbatim>\<open>nDeleted\<close> 0 or 1 and has removed that many rows, however many stored documents match;
  a call that throws has removed none; and \<^verbatim>\<open>removeMany\<close> is the same call.
\<close>

theorem deleteMany_deletes_at_most_one:
  assumes "primary_key_holds (tbl c)"
  shows "(case deleteMany env c criteria of
            (Inl e, c') \<Rightarrow> c' = c
          | (Inr r, c') \<Rightarrow>
              (\<exists>n. r = Result_nDeleted n \<and> 0 \<le> n \<and> n \<le> 1 \<and>
                   int (length (rows (tbl c'))) = int (length (rows (tbl c))) - n))
         \<and> removeMany env c criteria = deleteMany env c criteria"
proof (cases "toArray env c criteria (limit 1 query)")
  case (Inl e)
  then show ?thesis by (simp add: deleteMany_def removeMany_def)
next
  case (Inr matching)
  then have len: "length matching \<le> 1" by (rule toArray_limit_one)
  show ?thesis
  proof (cases matching)
    case Nil
    with Inr show ?thesis by (simp add: deleteMany_def removeMany_def)
  next
    case (Cons m ms)
    with len have ms: "ms = []" by simp
    show ?thesis
    proof (cases "sql_delete (tbl c) [lookup m ''_id'']")
      case (Inl e)
      with Inr Cons ms show ?thesis by (simp add: deleteMany_def removeMany_def)
    next
      case del: (Inr p)
      obtain n t where p: "p = (n, t)" by (cases p)
      from sql_delete_one [OF assms] del p
      have "0 \<le> n \<and> n \<le> 1 \<and> int (length (rows t)) = int (length (rows (tbl c))) - n" by simp
      with Inr Cons ms del p show ?thesis by (simp add: deleteMany_def removeMany_def)
    qed
  qed
qed

text \<open>Two stored documents match the criteria; one of them is deleted and the other stays.\<close>

theorem deleteMany_witness:
  "primary_key_holds (tbl two_cats) \<and>
   toArray sqlite3 two_cats [(''fur'', JStr ''black'')] query = Inr [pypy, spyspy] \<and>
   fst (deleteMany sqlite3 two_cats [(''fur'', JStr ''black'')]) = Inr (Result_nDeleted 1) \<and>
   toArray sqlite3 (snd (deleteMany sqlite3 two_cats [(''fur'', JStr ''black'')]))
     [(''fur'', JStr ''black'')] query = Inr [spyspy] \<and>
   removeMany sqlite3 two_cats [(''fur'', JStr ''black'')]
     = deleteMany sqlite3 two_cats [(''fur'', JStr ''black'')]"
proof -
  have "reachable sqlite3 two_cats"
    unfolding two_cats_def one_cat_def fresh_def
    by (intro reachable.insertOne reachable.start)
  then have d: "primary_key_holds (tbl two_cats)"
    by (rule reachable_primary_key)
  have a: "toArray sqlite3 two_cats [(''fur'', JStr ''black'')] query = Inr [pypy, spyspy]"
    by code_simp
  have b: "fst (deleteMany sqlite3 two_cats [(''fur'', JStr ''black'')]) = Inr (Result_nDeleted 1)"
    by code_simp
  have e: "toArray sqlite3 (snd (deleteMany sqlite3 two_cats [(''fur'', JStr ''black'')]))
             [(''fur'', JStr ''black'')] query = Inr [spyspy]"
    by code_simp
  show ?thesis
    using deleteMany_deletes_at_most_one [OF d, of sqlite3 "[(''fur'', JStr ''black'')]"] d a b e
    by simp
qed

subsection \<open>Generated ids\<close>

lemma lookup_fold_fields:
  "k \<notin> set (map mangleName fs) \<Longrightarrow>
   lookup (fold (\<lambda>field row. obj_set (mangleName field) (g field) row) fs row) k = lookup row k"
  by (induction fs arbitrary: row) (auto simp: lookup_obj_set)

lemma lookup_fold_indexes:
  "k \<notin> set (map mangleName (concat (map (\<lambda>ix. map fst (index.fields ix)) ixs))) \<Longrightarrow>
   lookup (fold (\<lambda>index row. fold (\<lambda>field row. obj_set (mangleName field) (g field) row)
                                (map fst (index.fields index)) row) ixs row) k = lookup row k"
proof (induction ixs arbitrary: row)
  case Nil
  then show ?case by simp
next
  case (Cons ix ixs)
  then have a: "k \<notin> set (map mangleName (map fst (index.fields ix)))"
    and b: "k \<notin> set (map mangleName (concat (map (\<lambda>ix. map fst (index.fields ix)) ixs)))"
    by auto
  show ?case using Cons.IH [OF b] lookup_fold_fields [OF a] by simp
qed

lemma blob_of_prepareForUpdate:
  "''_ext_json'' \<notin> set (map mangleName (concat (map (\<lambda>ix. map fst (index.fields ix)) ixs))) \<Longrightarrow>
   lookup (prepareForUpdate env ixs doc) ''_ext_json'' = JStr (EJSON_stringify env doc)"
  unfolding prepareForUpdate_def by (subst lookup_fold_indexes) simp_all

text \<open>
  C10. \<^verbatim>\<open>insertOne\<close> of a document without \<^verbatim>\<open>_id\<close>, in a collection with no index on the
  reserved column name \<^verbatim>\<open>_ext_json\<close> and with a codec that round-trips the document: when
  the insert succeeds it appends one row, whose \<^verbatim>\<open>_id\<close> column holds the generated id and
  whose blob is the text of the document as it was passed. What a read decodes from that
  row is the document, without \<^verbatim>\<open>_id\<close>; \<^verbatim>\<open>find({})\<close> returns it so.
\<close>

theorem generated_id_only_in_id_column:
  assumes "\<not> hasOwn (JObj doc) ''_id''"
      and "''_ext_json'' \<notin> set (map mangleName (concat (map (\<lambda>ix. map fst (index.fields ix)) (indexes c))))"
      and "EJSON_parse env (JStr (EJSON_stringify env doc)) = doc"
      and "insertOne env cuid c doc = (Inr r, c')"
  shows "\<exists>row. rows (tbl c') = rows (tbl c) @ [row] \<and>
           lookup row ''_id'' = JStr cuid \<and>
           lookup row ''_ext_json'' = JStr (EJSON_stringify env doc) \<and>
           decode_row env row = doc \<and>
           \<not> hasOwn (JObj (decode_row env row)) ''_id'' \<and>
           toArray env c' [] query =
             map_sum (\<lambda>e. e) (\<lambda>ds. ds @ (if sift env [] doc then [doc] else []))
               (toArray env c [] query)"
proof -
  let ?row = "prepareForInsert env cuid (indexes c) doc"
  from assms(4) have c': "c' = c\<lparr>tbl := (tbl c)\<lparr>rows := rows (tbl c) @ [?row]\<rparr>\<rparr>"
    by (auto simp: insertOne_def sql_insert_def split: sum.splits if_splits)
  from assms(1) have "lookup doc ''_id'' = JUndefined" by (simp add: lookup_absent)
  then have ident: "lookup ?row ''_id'' = JStr cuid"
    by (simp add: prepareForInsert_def lookup_obj_set js_or_def)
  have blob: "lookup ?row ''_ext_json'' = JStr (EJSON_stringify env doc)"
    using blob_of_prepareForUpdate [OF assms(2)] by (simp add: prepareForInsert_def lookup_obj_set)
  with assms(3) have decoded: "decode_row env ?row = doc" by (simp add: decode_row_def)
  have "rows (tbl c') = rows (tbl c) @ [?row]" using c' by simp
  moreover have "toArray env c' [] query =
             map_sum (\<lambda>e. e) (\<lambda>ds. ds @ (if sift env [] doc then [doc] else []))
               (toArray env c [] query)"
    using c' decoded by (simp add: toArray_all)
  ultimately show ?thesis using ident blob decoded assms(1) by auto
qed

text \<open>
  \<^verbatim>\<open>insertOne({name: 'spike', fur: 'tortoiseshell'})\<close> with the generated id \<^verbatim>\<open>c1\<close>: the id is
  in the \<^verbatim>\<open>_id\<close> column, and both \<^verbatim>\<open>find\<close> and \<^verbatim>\<open>findOne\<close> return the document without it.
\<close>

theorem generated_id_witness:
  "\<not> hasOwn (JObj spike) ''_id'' \<and>
   toy_parse (JStr (toy_stringify spike)) = spike \<and>
   fst (insertOne sqlite3 ''c1'' fresh spike) = Inr (Result_nModified 1) \<and>
   map (\<lambda>row. lookup row ''_id'') (rows (tbl (snd (insertOne sqlite3 ''c1'' fresh spike)))) = [JStr ''c1''] \<and>
   toArray sqlite3 (snd (insertOne sqlite3 ''c1'' fresh spike)) [] query = Inr [spike] \<and>
   findOne sqlite3 (snd (insertOne sqlite3 ''c1'' fresh spike)) [(''name'', JStr ''spike'')]
     = Inr (Some spike)"
proof -
  let ?c' = "snd (insertOne sqlite3 ''c1'' fresh spike)"
  have h1: "\<not> hasOwn (JObj spike) ''_id''"
    by code_simp
  have h2: "''_ext_json'' \<notin> set (map mangleName (concat (map (\<lambda>ix. map fst (index.fields ix)) (indexes fresh))))"
    by code_simp
  have h3: "EJSON_parse sqlite3 (JStr (EJSON_stringify sqlite3 spike)) = spike"
    by code_simp
  have h4: "insertOne sqlite3 ''c1'' fresh spike = (Inr (Result_nModified 1), ?c')"
    by code_simp
  have rt: "toy_parse (JStr (toy_stringify spike)) = spike"
    by code_simp
  have ok: "fst (insertOne sqlite3 ''c1'' fresh spike) = Inr (Result_nModified 1)"
    by code_simp
  have old: "toArray sqlite3 fresh [] query = Inr []" and m: "sift sqlite3 [] spike"
    by code_simp+
  have one: "findOne sqlite3 ?c' [(''name'', JStr ''spike'')] = Inr (Some spike)"
    by code_simp
  have "rows (tbl fresh) = []"
    by code_simp
  with generated_id_only_in_id_column [OF h1 h2 h3 h4] old m
  have "map (\<lambda>row. lookup row ''_id'') (rows (tbl ?c')) = [JStr ''c1'']"
    and "toArray sqlite3 ?c' [] query = Inr [spike]"
    by auto
  with h1 rt ok one show ?thesis by simp
qed

end
